theory Spec2Isabelle
  imports Main "HOL-Library.Word"
begin

section \<open>Types of the engine interface\<close>

text \<open>
  The wrapper layer of \<^verbatim>\<open>src/include/Tilemap.h\<close> (namespace \<^verbatim>\<open>QuickGame\<close>) forwards to
  the C engine declared in \<^verbatim>\<open>QuickGame.h\<close>. That header is not among the sources, so
  the engine is a parameter of every wrapper below: a record with one field per engine
  entry point the wrappers call. Only what the wrappers themselves read or write of the
  engine's structs is modelled.

  Field names of structs carry the struct's name as a prefix (\<open>QGVector2_x\<close> for
  \<^verbatim>\<open>QGVector2::x\<close>, \<open>Mesh_ir\<close> for \<^verbatim>\<open>Mesh::ir\<close>), since the three wrapper classes all call
  their handle \<^verbatim>\<open>ir\<close> and HOL has one name space for record fields.
\<close>

type_synonym u8 = "8 word"
type_synonym u16 = "16 word"
type_synonym u32 = "32 word"
type_synonym i32 = "32 word"   \<comment> \<open>read as two's complement with \<open>sint\<close>\<close>
type_synonym usize = "32 word" \<comment> \<open>\<^verbatim>\<open>usize\<close> and \<^verbatim>\<open>size_t\<close>; the target, the PSP, is a 32-bit machine\<close>
type_synonym f32 = "32 word"   \<comment> \<open>the bit pattern of a float; the wrappers only copy floats\<close>

text \<open>Pointers and opaque handles are addresses; address 0 is the null pointer.\<close>

type_synonym ptr = nat

abbreviation NULL :: ptr where
  "NULL \<equiv> 0"

record QGVector2 =
  QGVector2_x :: f32
  QGVector2_y :: f32

text \<open>
  \<^verbatim>\<open>QGTransform2D\<close> is built by the sprite constructors as \<^verbatim>\<open>{position, 0, size}\<close>: a vector,
  a scalar and a vector, in this order.
\<close>

record QGTransform2D =
  QGTransform2D_position :: QGVector2
  QGTransform2D_rotation :: f32
  QGTransform2D_scale :: QGVector2

text \<open>\<^verbatim>\<open>QGColor\<close> is accessed through its 32-bit member \<^verbatim>\<open>color\<close> only.\<close>

record QGColor =
  QGColor_color :: u32

text \<open>
  The struct behind a \<^verbatim>\<open>QGVMesh_t\<close> handle: \<^verbatim>\<open>Mesh::add_data\<close> reads \<^verbatim>\<open>ir->type\<close>,
  \<^verbatim>\<open>ir->data\<close> and \<^verbatim>\<open>ir->indices\<close>. The struct behind a \<^verbatim>\<open>QGSprite_t\<close> handle:
  \<^verbatim>\<open>Sprite::draw\<close> writes \<^verbatim>\<open>ir->transform\<close> and \<^verbatim>\<open>ir->layer\<close>.
\<close>

record QGVMesh =
  QGVMesh_type :: u8
  QGVMesh_data :: ptr
  QGVMesh_indices :: ptr

record QGSprite =
  QGSprite_transform :: QGTransform2D
  QGSprite_layer :: i32

text \<open>
  The memory shared by wrapper and engine: raw bytes, the mesh structs and the sprite
  structs, each indexed by address, and the engine's private state \<open>'x\<close>.
\<close>

record 'x world =
  mem :: "ptr \<Rightarrow> u8"
  meshes :: "ptr \<Rightarrow> QGVMesh"
  sprites :: "ptr \<Rightarrow> QGSprite"
  priv :: 'x

text \<open>
  Constants of \<^verbatim>\<open>QuickGame.h\<close> that \<^verbatim>\<open>Mesh::add_data\<close> uses: the tag of textured vertices
  and the two vertex sizes.
\<close>

record header =
  QG_VERTEX_TYPE_TEXTURED :: u8
  sizeof_QGTexturedVertex :: usize
  sizeof_QGColoredVertex :: usize

section \<open>The engine\<close>

text \<open>
  One constructor per engine entry point, with the arguments it was called with. A
  destroy function is handed the address of a handle; the entry records the handle
  stored there at the time of the call. \<open>'ti\<close> is the type \<^verbatim>\<open>QGTexInfo\<close>, which the
  wrappers pass on without looking inside.
\<close>

datatype 'ti call =
    Call_Init
  | Call_Running
  | Call_Terminate
  | Call_Request_Exit
  | Call_Allocate usize
  | Call_Allocate_Aligned usize usize
  | Call_Destroy ptr
  | Call_Graphics_Init
  | Call_Graphics_Terminate
  | Call_Graphics_Set_Dialog_Mode bool
  | Call_Graphics_Start_Frame
  | Call_Graphics_End_Frame bool
  | Call_Graphics_Set_Clear_Color QGColor
  | Call_Graphics_Clear
  | Call_Graphics_Set2D
  | Call_Graphics_Set_Camera ptr
  | Call_Graphics_Unset_Camera
  | Call_Graphics_Create_Mesh u8 usize usize
  | Call_Graphics_Draw_Mesh ptr
  | Call_Graphics_Destroy_Mesh ptr
  | Call_Texture_Load string bool bool
  | Call_Texture_Load_Alt 'ti
  | Call_Texture_Bind ptr
  | Call_Texture_Unbind
  | Call_Texture_Destroy ptr
  | Call_Sprite_Create QGVector2 QGVector2 ptr
  | Call_Sprite_Create_Contained f32 f32 f32 f32 'ti
  | Call_Sprite_Draw ptr
  | Call_Sprite_Destroy ptr
  | Call_Sprite_Intersects ptr ptr
  | Call_Sprite_Intersect_Direction ptr ptr
  | Call_Input_Init
  | Call_Input_Update
  | Call_Button_Pressed u32
  | Call_Button_Held u32
  | Call_Button_Released u32

text \<open>
  An engine function maps the world to its return value and the new world. The three
  destroy functions receive the handle stored at the address they are given and return
  the handle they leave there. Return types are those of the wrappers that pass the
  value on. \<^verbatim>\<open>QuickGame_Graphics_Init\<close> is given a status as return value;
  \<^verbatim>\<open>Graphics::init\<close> discards whatever it returns.
\<close>

record ('ti, 'x) engine =
  QuickGame_Init :: "'x world \<Rightarrow> i32 \<times> 'x world"
  QuickGame_Running :: "'x world \<Rightarrow> bool \<times> 'x world"
  QuickGame_Terminate :: "'x world \<Rightarrow> unit \<times> 'x world"
  QuickGame_Request_Exit :: "'x world \<Rightarrow> unit \<times> 'x world"
  QuickGame_Allocate :: "usize \<Rightarrow> 'x world \<Rightarrow> ptr \<times> 'x world"
  QuickGame_Allocate_Aligned :: "usize \<Rightarrow> usize \<Rightarrow> 'x world \<Rightarrow> ptr \<times> 'x world"
  QuickGame_Destroy :: "ptr \<Rightarrow> 'x world \<Rightarrow> unit \<times> 'x world"
  QuickGame_Graphics_Init :: "'x world \<Rightarrow> i32 \<times> 'x world"
  QuickGame_Graphics_Terminate :: "'x world \<Rightarrow> unit \<times> 'x world"
  QuickGame_Graphics_Set_Dialog_Mode :: "bool \<Rightarrow> 'x world \<Rightarrow> unit \<times> 'x world"
  QuickGame_Graphics_Start_Frame :: "'x world \<Rightarrow> unit \<times> 'x world"
  QuickGame_Graphics_End_Frame :: "bool \<Rightarrow> 'x world \<Rightarrow> unit \<times> 'x world"
  QuickGame_Graphics_Set_Clear_Color :: "QGColor \<Rightarrow> 'x world \<Rightarrow> unit \<times> 'x world"
  QuickGame_Graphics_Clear :: "'x world \<Rightarrow> unit \<times> 'x world"
  QuickGame_Graphics_Set2D :: "'x world \<Rightarrow> unit \<times> 'x world"
  QuickGame_Graphics_Set_Camera :: "ptr \<Rightarrow> 'x world \<Rightarrow> unit \<times> 'x world"
  QuickGame_Graphics_Unset_Camera :: "'x world \<Rightarrow> unit \<times> 'x world"
  QuickGame_Graphics_Create_Mesh :: "u8 \<Rightarrow> usize \<Rightarrow> usize \<Rightarrow> 'x world \<Rightarrow> ptr \<times> 'x world"
  QuickGame_Graphics_Draw_Mesh :: "ptr \<Rightarrow> 'x world \<Rightarrow> unit \<times> 'x world"
  QuickGame_Graphics_Destroy_Mesh :: "ptr \<Rightarrow> 'x world \<Rightarrow> ptr \<times> 'x world"
  QuickGame_Texture_Load :: "string \<Rightarrow> bool \<Rightarrow> bool \<Rightarrow> 'x world \<Rightarrow> ptr \<times> 'x world"
  QuickGame_Texture_Load_Alt :: "'ti \<Rightarrow> 'x world \<Rightarrow> ptr \<times> 'x world"
  QuickGame_Texture_Bind :: "ptr \<Rightarrow> 'x world \<Rightarrow> unit \<times> 'x world"
  QuickGame_Texture_Unbind :: "'x world \<Rightarrow> unit \<times> 'x world"
  QuickGame_Texture_Destroy :: "ptr \<Rightarrow> 'x world \<Rightarrow> ptr \<times> 'x world"
  QuickGame_Sprite_Create :: "QGVector2 \<Rightarrow> QGVector2 \<Rightarrow> ptr \<Rightarrow> 'x world \<Rightarrow> ptr \<times> 'x world"
  QuickGame_Sprite_Create_Contained ::
    "f32 \<Rightarrow> f32 \<Rightarrow> f32 \<Rightarrow> f32 \<Rightarrow> 'ti \<Rightarrow> 'x world \<Rightarrow> ptr \<times> 'x world"
  QuickGame_Sprite_Draw :: "ptr \<Rightarrow> 'x world \<Rightarrow> unit \<times> 'x world"
  QuickGame_Sprite_Destroy :: "ptr \<Rightarrow> 'x world \<Rightarrow> ptr \<times> 'x world"
  QuickGame_Sprite_Intersects :: "ptr \<Rightarrow> ptr \<Rightarrow> 'x world \<Rightarrow> bool \<times> 'x world"
  QuickGame_Sprite_Intersect_Direction :: "ptr \<Rightarrow> ptr \<Rightarrow> 'x world \<Rightarrow> i32 \<times> 'x world"
  QuickGame_Input_Init :: "'x world \<Rightarrow> unit \<times> 'x world"
  QuickGame_Input_Update :: "'x world \<Rightarrow> unit \<times> 'x world"
  QuickGame_Button_Pressed :: "u32 \<Rightarrow> 'x world \<Rightarrow> bool \<times> 'x world"
  QuickGame_Button_Held :: "u32 \<Rightarrow> 'x world \<Rightarrow> bool \<times> 'x world"
  QuickGame_Button_Released :: "u32 \<Rightarrow> 'x world \<Rightarrow> bool \<times> 'x world"

section \<open>Program state and outcomes\<close>

text \<open>
  The state of a run: the engine calls made so far, oldest first, and the world. A
  \<^verbatim>\<open>throw std::runtime_error(msg)\<close> is the outcome \<open>Inl (runtime_error msg)\<close>; reading
  through a null handle is the outcome \<open>Inl null_dereference\<close>, and a \<^verbatim>\<open>memcpy\<close> whose
  source and destination overlap is the outcome \<open>Inl overlapping_memcpy\<close>. The last two
  are undefined behaviour of the source: they mark where the program stops having a
  meaning, and are not exceptions.
\<close>

record ('ti, 'x) state =
  trace :: "'ti call list"
  world :: "'x world"

datatype error = runtime_error string | null_dereference | overlapping_memcpy

fun throws :: "error + 'a \<Rightarrow> bool" where
  "throws (Inl (runtime_error msg)) = True"
| "throws (Inl null_dereference) = False"
| "throws (Inl overlapping_memcpy) = False"
| "throws (Inr v) = False"

definition engine_call ::
  "'ti call \<Rightarrow> ('x world \<Rightarrow> 'a \<times> 'x world) \<Rightarrow> ('ti, 'x) state \<Rightarrow> 'a \<times> ('ti, 'x) state" where
  "engine_call c f s =
     (case f (world s) of (r, w) \<Rightarrow> (r, \<lparr>trace = trace s @ [c], world = w\<rparr>))"

section \<open>Namespace QuickGame\<close>

definition init :: "('ti, 'x) engine \<Rightarrow> ('ti, 'x) state \<Rightarrow> (error + unit) \<times> ('ti, 'x) state" where
  "init eng s =
     (case engine_call Call_Init (QuickGame_Init eng) s of (r, s') \<Rightarrow>
        if sint r < 0 then (Inl (runtime_error ''Failed to initialize!''), s')
        else (Inr (), s'))"




definition allocate ::
  "('ti, 'x) engine \<Rightarrow> usize \<Rightarrow> ('ti, 'x) state \<Rightarrow> (error + ptr) \<times> ('ti, 'x) state" where
  "allocate eng n s =
     (case engine_call (Call_Allocate n) (QuickGame_Allocate eng n) s of (p, s') \<Rightarrow> (Inr p, s'))"

definition allocate_aligned ::
  "('ti, 'x) engine \<Rightarrow> usize \<Rightarrow> usize \<Rightarrow> ('ti, 'x) state \<Rightarrow> (error + ptr) \<times> ('ti, 'x) state" where
  "allocate_aligned eng a n s =
     (case engine_call (Call_Allocate_Aligned a n) (QuickGame_Allocate_Aligned eng a n) s of
        (p, s') \<Rightarrow> (Inr p, s'))"


section \<open>Namespace QuickGame::Graphics\<close>

definition Graphics_init ::
  "('ti, 'x) engine \<Rightarrow> ('ti, 'x) state \<Rightarrow> (error + unit) \<times> ('ti, 'x) state" where
  "Graphics_init eng s =
     (case engine_call Call_Graphics_Init (QuickGame_Graphics_Init eng) s of
        (r, s') \<Rightarrow> (Inr (), s'))"










subsection \<open>class Mesh\<close>

text \<open>
  A method takes the object (\<^verbatim>\<open>*this\<close>) and the state and returns its outcome, the
  object and the state as it leaves them. A constructor takes the object's storage as
  it finds it: members it does not initialise keep what the storage held.
\<close>

record Mesh =
  Mesh_ir :: ptr

text \<open>\<^verbatim>\<open>Mesh() : ir(NULL) {}\<close>\<close>

definition Mesh_default ::
  "Mesh \<Rightarrow> ('ti, 'x) state \<Rightarrow> (error + unit) \<times> Mesh \<times> ('ti, 'x) state" where
  "Mesh_default this s = (Inr (), this\<lparr>Mesh_ir := NULL\<rparr>, s)"

definition Mesh_delete_data ::
  "('ti, 'x) engine \<Rightarrow> Mesh \<Rightarrow> ('ti, 'x) state \<Rightarrow> (error + unit) \<times> Mesh \<times> ('ti, 'x) state" where
  "Mesh_delete_data eng this s =
     (case engine_call (Call_Graphics_Destroy_Mesh (Mesh_ir this))
             (QuickGame_Graphics_Destroy_Mesh eng (Mesh_ir this)) s of
        (h, s') \<Rightarrow> (Inr (), this\<lparr>Mesh_ir := h\<rparr>, s'))"

definition Mesh_create_mesh ::
  "('ti, 'x) engine \<Rightarrow> u8 \<Rightarrow> usize \<Rightarrow> usize \<Rightarrow> Mesh \<Rightarrow> ('ti, 'x) state \<Rightarrow>
     (error + unit) \<times> Mesh \<times> ('ti, 'x) state" where
  "Mesh_create_mesh eng type vcount icount this s =
     (case (if Mesh_ir this \<noteq> NULL then Mesh_delete_data eng this s
            else (case engine_call (Call_Graphics_Create_Mesh type vcount icount)
                         (QuickGame_Graphics_Create_Mesh eng type vcount icount) s of
                    (h, s') \<Rightarrow> (Inr (), this\<lparr>Mesh_ir := h\<rparr>, s'))) of
        (r, this', s') \<Rightarrow>
          if Mesh_ir this' = NULL then (Inl (runtime_error ''Mesh creation failed!''), this', s')
          else (Inr (), this', s'))"

text \<open>\<^verbatim>\<open>Mesh(type, vcount, icount) : ir(NULL) { create_mesh(type, vcount, icount); }\<close>\<close>

definition Mesh_ctor ::
  "('ti, 'x) engine \<Rightarrow> u8 \<Rightarrow> usize \<Rightarrow> usize \<Rightarrow> Mesh \<Rightarrow> ('ti, 'x) state \<Rightarrow>
     (error + unit) \<times> Mesh \<times> ('ti, 'x) state" where
  "Mesh_ctor eng type vcount icount this s =
     Mesh_create_mesh eng type vcount icount (this\<lparr>Mesh_ir := NULL\<rparr>) s"

definition Mesh_dtor ::
  "('ti, 'x) engine \<Rightarrow> Mesh \<Rightarrow> ('ti, 'x) state \<Rightarrow> (error + unit) \<times> Mesh \<times> ('ti, 'x) state" where
  "Mesh_dtor eng this s = Mesh_delete_data eng this s"

text \<open>
  \<^verbatim>\<open>memcpy(dst, src, n)\<close> is defined only when the \<open>n\<close> bytes from \<open>src\<close> on and the \<open>n\<close>
  bytes from \<open>dst\<close> on do not overlap. Then the bytes from \<open>dst\<close> on become those from
  \<open>src\<close> on, and every other byte stays.
\<close>

definition overlap :: "ptr \<Rightarrow> ptr \<Rightarrow> nat \<Rightarrow> bool" where
  "overlap dst src n \<longleftrightarrow> dst < src + n \<and> src < dst + n"

definition copy_bytes :: "(ptr \<Rightarrow> u8) \<Rightarrow> ptr \<Rightarrow> ptr \<Rightarrow> nat \<Rightarrow> (ptr \<Rightarrow> u8)" where
  "copy_bytes m dst src n = (\<lambda>a. if dst \<le> a \<and> a < dst + n then m (src + (a - dst)) else m a)"

definition memcpy :: "(ptr \<Rightarrow> u8) \<Rightarrow> ptr \<Rightarrow> ptr \<Rightarrow> nat \<Rightarrow> error + (ptr \<Rightarrow> u8)" where
  "memcpy m dst src n =
     (if overlap dst src n then Inl overlapping_memcpy else Inr (copy_bytes m dst src n))"

definition sizeof_u16 :: usize where
  "sizeof_u16 = 2"

text \<open>
  \<^verbatim>\<open>add_data\<close> checks the two argument pointers, then reads the mesh struct through
  \<^verbatim>\<open>ir\<close> without a check; the byte counts are products in \<^verbatim>\<open>size_t\<close>. Where the source
  has undefined behaviour (a null handle, an overlapping copy) the model stops with
  that outcome and hands back the object and the state it was given.
\<close>

definition Mesh_add_data ::
  "header \<Rightarrow> ptr \<Rightarrow> usize \<Rightarrow> ptr \<Rightarrow> usize \<Rightarrow> Mesh \<Rightarrow> ('ti, 'x) state \<Rightarrow>
     (error + unit) \<times> Mesh \<times> ('ti, 'x) state" where
  "Mesh_add_data hdr verts vcount indices icount this s =
     (if verts = NULL \<or> indices = NULL then (Inl (runtime_error ''Mesh data null!''), this, s)
      else if Mesh_ir this = NULL then (Inl null_dereference, this, s)
      else
        let m = meshes (world s) (Mesh_ir this);
            size' = (if QGVMesh_type m = QG_VERTEX_TYPE_TEXTURED hdr
                     then sizeof_QGTexturedVertex hdr else sizeof_QGColoredVertex hdr)
        in case memcpy (mem (world s)) (QGVMesh_data m) verts (unat (vcount * size')) of
             Inl e \<Rightarrow> (Inl e, this, s)
           | Inr mem1 \<Rightarrow>
               (case memcpy mem1 (QGVMesh_indices m) indices (unat (icount * sizeof_u16)) of
                  Inl e \<Rightarrow> (Inl e, this, s)
                | Inr mem2 \<Rightarrow> (Inr (), this, s\<lparr>world := (world s)\<lparr>mem := mem2\<rparr>\<rparr>)))"

definition Mesh_draw ::
  "('ti, 'x) engine \<Rightarrow> Mesh \<Rightarrow> ('ti, 'x) state \<Rightarrow> (error + unit) \<times> Mesh \<times> ('ti, 'x) state" where
  "Mesh_draw eng this s =
     (case engine_call (Call_Graphics_Draw_Mesh (Mesh_ir this))
             (QuickGame_Graphics_Draw_Mesh eng (Mesh_ir this)) s of
        (u, s') \<Rightarrow> (Inr (), this, s'))"

subsection \<open>class Texture\<close>

record Texture =
  Texture_ir :: ptr

text \<open>\<^verbatim>\<open>Texture(const char* filename, const bool flip, const bool vram) : ir(NULL)\<close>\<close>

definition Texture_ctor ::
  "('ti, 'x) engine \<Rightarrow> string \<Rightarrow> bool \<Rightarrow> bool \<Rightarrow> Texture \<Rightarrow> ('ti, 'x) state \<Rightarrow>
     (error + unit) \<times> Texture \<times> ('ti, 'x) state" where
  "Texture_ctor eng filename flip vram this s =
     (let this0 = this\<lparr>Texture_ir := NULL\<rparr> in
      case engine_call (Call_Texture_Load filename flip vram)
             (QuickGame_Texture_Load eng filename flip vram) s of
        (h, s') \<Rightarrow>
          let this1 = this0\<lparr>Texture_ir := h\<rparr> in
          if Texture_ir this1 = NULL then (Inl (runtime_error ''Could not load texture!''), this1, s')
          else (Inr (), this1, s'))"

text \<open>\<^verbatim>\<open>Texture(const QGTexInfo tex_info)\<close>\<close>

definition Texture_ctor_info ::
  "('ti, 'x) engine \<Rightarrow> 'ti \<Rightarrow> Texture \<Rightarrow> ('ti, 'x) state \<Rightarrow>
     (error + unit) \<times> Texture \<times> ('ti, 'x) state" where
  "Texture_ctor_info eng tex_info this s =
     (case engine_call (Call_Texture_Load_Alt tex_info) (QuickGame_Texture_Load_Alt eng tex_info) s of
        (h, s') \<Rightarrow>
          let this1 = this\<lparr>Texture_ir := h\<rparr> in
          if Texture_ir this1 = NULL then (Inl (runtime_error ''Could not load texture!''), this1, s')
          else (Inr (), this1, s'))"

definition Texture_bind ::
  "('ti, 'x) engine \<Rightarrow> Texture \<Rightarrow> ('ti, 'x) state \<Rightarrow> (error + unit) \<times> Texture \<times> ('ti, 'x) state" where
  "Texture_bind eng this s =
     (case engine_call (Call_Texture_Bind (Texture_ir this))
             (QuickGame_Texture_Bind eng (Texture_ir this)) s of
        (u, s') \<Rightarrow> (Inr (), this, s'))"

definition Texture_unbind ::
  "('ti, 'x) engine \<Rightarrow> Texture \<Rightarrow> ('ti, 'x) state \<Rightarrow> (error + unit) \<times> Texture \<times> ('ti, 'x) state" where
  "Texture_unbind eng this s =
     (case engine_call Call_Texture_Unbind (QuickGame_Texture_Unbind eng) s of
        (u, s') \<Rightarrow> (Inr (), this, s'))"

definition Texture_dtor ::
  "('ti, 'x) engine \<Rightarrow> Texture \<Rightarrow> ('ti, 'x) state \<Rightarrow> (error + unit) \<times> Texture \<times> ('ti, 'x) state" where
  "Texture_dtor eng this s =
     (case engine_call (Call_Texture_Destroy (Texture_ir this))
             (QuickGame_Texture_Destroy eng (Texture_ir this)) s of
        (h, s') \<Rightarrow> (Inr (), this\<lparr>Texture_ir := h\<rparr>, s'))"

subsection \<open>class Sprite\<close>

record Sprite =
  Sprite_transform :: QGTransform2D
  Sprite_layer :: i32
  Sprite_color :: QGColor
  Sprite_ir :: ptr

text \<open>
  \<^verbatim>\<open>Sprite(const QGVector2 position, const QGVector2 size, Texture* texture)\<close>. The
  constructor reads \<^verbatim>\<open>texture->ir\<close>, which has a meaning only when the pointer points to
  a \<^verbatim>\<open>Texture\<close>: the model takes the texture pointed to.
\<close>

definition Sprite_ctor ::
  "('ti, 'x) engine \<Rightarrow> QGVector2 \<Rightarrow> QGVector2 \<Rightarrow> Texture \<Rightarrow> Sprite \<Rightarrow> ('ti, 'x) state \<Rightarrow>
     (error + unit) \<times> Sprite \<times> ('ti, 'x) state" where
  "Sprite_ctor eng position size' texture this s =
     (let this1 = this\<lparr>Sprite_transform :=
                        \<lparr>QGTransform2D_position = position, QGTransform2D_rotation = 0,
                         QGTransform2D_scale = size'\<rparr>\<rparr>;
          this2 = this1\<lparr>Sprite_layer := 0\<rparr>;
          this3 = this2\<lparr>Sprite_color := (Sprite_color this2)\<lparr>QGColor_color := 0xFFFFFFFF\<rparr>\<rparr>
      in case engine_call (Call_Sprite_Create position size' (Texture_ir texture))
                (QuickGame_Sprite_Create eng position size' (Texture_ir texture)) s of
           (h, s') \<Rightarrow>
             let this4 = this3\<lparr>Sprite_ir := h\<rparr> in
             if Sprite_ir this4 = NULL
             then (Inl (runtime_error ''Could not make sprite!''), this4, s')
             else (Inr (), this4, s'))"

text \<open>\<^verbatim>\<open>Sprite(const QGVector2&& position, const QGVector2&& size, const QGTexInfo tex_info)\<close>\<close>

definition Sprite_ctor_info ::
  "('ti, 'x) engine \<Rightarrow> QGVector2 \<Rightarrow> QGVector2 \<Rightarrow> 'ti \<Rightarrow> Sprite \<Rightarrow> ('ti, 'x) state \<Rightarrow>
     (error + unit) \<times> Sprite \<times> ('ti, 'x) state" where
  "Sprite_ctor_info eng position size' tex_info this s =
     (let this1 = this\<lparr>Sprite_transform :=
                        \<lparr>QGTransform2D_position = position, QGTransform2D_rotation = 0,
                         QGTransform2D_scale = size'\<rparr>\<rparr>;
          this2 = this1\<lparr>Sprite_layer := 0\<rparr>;
          this3 = this2\<lparr>Sprite_color := (Sprite_color this2)\<lparr>QGColor_color := 0xFFFFFFFF\<rparr>\<rparr>
      in case engine_call
                (Call_Sprite_Create_Contained (QGVector2_x position) (QGVector2_y position)
                   (QGVector2_x size') (QGVector2_y size') tex_info)
                (QuickGame_Sprite_Create_Contained eng (QGVector2_x position) (QGVector2_y position)
                   (QGVector2_x size') (QGVector2_y size') tex_info) s of
           (h, s') \<Rightarrow>
             let this4 = this3\<lparr>Sprite_ir := h\<rparr> in
             if Sprite_ir this4 = NULL
             then (Inl (runtime_error ''Could not make sprite!''), this4, s')
             else (Inr (), this4, s'))"

definition Sprite_dtor ::
  "('ti, 'x) engine \<Rightarrow> Sprite \<Rightarrow> ('ti, 'x) state \<Rightarrow> (error + unit) \<times> Sprite \<times> ('ti, 'x) state" where
  "Sprite_dtor eng this s =
     (case engine_call (Call_Sprite_Destroy (Sprite_ir this))
             (QuickGame_Sprite_Destroy eng (Sprite_ir this)) s of
        (h, s') \<Rightarrow> (Inr (), this\<lparr>Sprite_ir := h\<rparr>, s'))"

definition Sprite_draw ::
  "('ti, 'x) engine \<Rightarrow> Sprite \<Rightarrow> ('ti, 'x) state \<Rightarrow> (error + unit) \<times> Sprite \<times> ('ti, 'x) state" where
  "Sprite_draw eng this s =
     (if Sprite_ir this = NULL then (Inr (), this, s)
      else
        let w = world s;
            w1 = w\<lparr>sprites := (sprites w)
                   (Sprite_ir this := (sprites w (Sprite_ir this))
                      \<lparr>QGSprite_transform := Sprite_transform this\<rparr>)\<rparr>;
            w2 = w1\<lparr>sprites := (sprites w1)
                   (Sprite_ir this := (sprites w1 (Sprite_ir this))
                      \<lparr>QGSprite_layer := Sprite_layer this\<rparr>)\<rparr>
        in case engine_call (Call_Sprite_Draw (Sprite_ir this))
                  (QuickGame_Sprite_Draw eng (Sprite_ir this)) (s\<lparr>world := w2\<rparr>) of
             (u, s') \<Rightarrow> (Inr (), this, s'))"

definition Sprite_intersects ::
  "('ti, 'x) engine \<Rightarrow> Sprite \<Rightarrow> Sprite \<Rightarrow> ('ti, 'x) state \<Rightarrow>
     (error + bool) \<times> Sprite \<times> ('ti, 'x) state" where
  "Sprite_intersects eng other this s =
     (case engine_call (Call_Sprite_Intersects (Sprite_ir this) (Sprite_ir other))
             (QuickGame_Sprite_Intersects eng (Sprite_ir this) (Sprite_ir other)) s of
        (b, s') \<Rightarrow> (Inr b, this, s'))"

definition Sprite_intersection ::
  "('ti, 'x) engine \<Rightarrow> Sprite \<Rightarrow> Sprite \<Rightarrow> ('ti, 'x) state \<Rightarrow>
     (error + i32) \<times> Sprite \<times> ('ti, 'x) state" where
  "Sprite_intersection eng other this s =
     (case engine_call (Call_Sprite_Intersect_Direction (Sprite_ir this) (Sprite_ir other))
             (QuickGame_Sprite_Intersect_Direction eng (Sprite_ir this) (Sprite_ir other)) s of
        (d, s') \<Rightarrow> (Inr d, this, s'))"

section \<open>Namespace QuickGame::Input\<close>



definition button_pressed ::
  "('ti, 'x) engine \<Rightarrow> u32 \<Rightarrow> ('ti, 'x) state \<Rightarrow> (error + bool) \<times> ('ti, 'x) state" where
  "button_pressed eng buttons s =
     (case engine_call (Call_Button_Pressed buttons) (QuickGame_Button_Pressed eng buttons) s of
        (b, s') \<Rightarrow> (Inr b, s'))"

definition button_held ::
  "('ti, 'x) engine \<Rightarrow> u32 \<Rightarrow> ('ti, 'x) state \<Rightarrow> (error + bool) \<times> ('ti, 'x) state" where
  "button_held eng buttons s =
     (case engine_call (Call_Button_Held buttons) (QuickGame_Button_Held eng buttons) s of
        (b, s') \<Rightarrow> (Inr b, s'))"

definition button_released ::
  "('ti, 'x) engine \<Rightarrow> u32 \<Rightarrow> ('ti, 'x) state \<Rightarrow> (error + bool) \<times> ('ti, 'x) state" where
  "button_released eng buttons s =
     (case engine_call (Call_Button_Released buttons) (QuickGame_Button_Released eng buttons) s of
        (b, s') \<Rightarrow> (Inr b, s'))"

section \<open>A sample engine\<close>

text \<open>
  The theorems below hold for every engine. To run the wrappers on concrete inputs, here
  is one engine: its private state counts the handles given out, a create or load call
  returns the next address (and null for an empty file name, for a mesh without
  vertices, for an allocation of no bytes and for a sprite on a null texture), a
  destroy call leaves null in the handle, and a button is pressed when its mask is 1.
  \<^verbatim>\<open>QGTexInfo\<close> is a file name here.
\<close>

definition fresh :: "nat world \<Rightarrow> ptr \<times> nat world" where
  "fresh w = (Suc (priv w), w\<lparr>priv := Suc (priv w)\<rparr>)"

definition sample_engine :: "(string, nat) engine" where
  "sample_engine =
     \<lparr>QuickGame_Init = (\<lambda>w. (0, w)),
      QuickGame_Running = (\<lambda>w. (True, w)),
      QuickGame_Terminate = (\<lambda>w. ((), w)),
      QuickGame_Request_Exit = (\<lambda>w. ((), w)),
      QuickGame_Allocate = (\<lambda>n w. if n = 0 then (NULL, w) else fresh w),
      QuickGame_Allocate_Aligned = (\<lambda>a n w. if n = 0 then (NULL, w) else fresh w),
      QuickGame_Destroy = (\<lambda>p w. ((), w)),
      QuickGame_Graphics_Init = (\<lambda>w. (0, w)),
      QuickGame_Graphics_Terminate = (\<lambda>w. ((), w)),
      QuickGame_Graphics_Set_Dialog_Mode = (\<lambda>mode w. ((), w)),
      QuickGame_Graphics_Start_Frame = (\<lambda>w. ((), w)),
      QuickGame_Graphics_End_Frame = (\<lambda>vsync w. ((), w)),
      QuickGame_Graphics_Set_Clear_Color = (\<lambda>c w. ((), w)),
      QuickGame_Graphics_Clear = (\<lambda>w. ((), w)),
      QuickGame_Graphics_Set2D = (\<lambda>w. ((), w)),
      QuickGame_Graphics_Set_Camera = (\<lambda>p w. ((), w)),
      QuickGame_Graphics_Unset_Camera = (\<lambda>w. ((), w)),
      QuickGame_Graphics_Create_Mesh = (\<lambda>t v i w. if v = 0 then (NULL, w) else fresh w),
      QuickGame_Graphics_Draw_Mesh = (\<lambda>p w. ((), w)),
      QuickGame_Graphics_Destroy_Mesh = (\<lambda>p w. (NULL, w)),
      QuickGame_Texture_Load = (\<lambda>f flip vram w. if f = [] then (NULL, w) else fresh w),
      QuickGame_Texture_Load_Alt = (\<lambda>f w. if f = [] then (NULL, w) else fresh w),
      QuickGame_Texture_Bind = (\<lambda>p w. ((), w)),
      QuickGame_Texture_Unbind = (\<lambda>w. ((), w)),
      QuickGame_Texture_Destroy = (\<lambda>p w. (NULL, w)),
      QuickGame_Sprite_Create = (\<lambda>pos sz t w. if t = NULL then (NULL, w) else fresh w),
      QuickGame_Sprite_Create_Contained =
        (\<lambda>px py sx sy f w. if f = [] then (NULL, w) else fresh w),
      QuickGame_Sprite_Draw = (\<lambda>p w. ((), w)),
      QuickGame_Sprite_Destroy = (\<lambda>p w. (NULL, w)),
      QuickGame_Sprite_Intersects = (\<lambda>a b w. (a = b, w)),
      QuickGame_Sprite_Intersect_Direction = (\<lambda>a b w. (if a = b then 1 else 0, w)),
      QuickGame_Input_Init = (\<lambda>w. ((), w)),
      QuickGame_Input_Update = (\<lambda>w. ((), w)),
      QuickGame_Button_Pressed = (\<lambda>b w. (b = 1, w)),
      QuickGame_Button_Held = (\<lambda>b w. (b = 1, w)),
      QuickGame_Button_Released = (\<lambda>b w. (b = 1, w))\<rparr>"

text \<open>
  A world where the byte at address \<open>a\<close> is \<open>a mod 256\<close>, every mesh struct is textured
  (type 0) with its vertex buffer at 100 and its index buffer at 200, and no handle has
  been given out; and the constants of the header, with 24-byte textured and 16-byte
  coloured vertices.
\<close>

definition vec0 :: QGVector2 where
  "vec0 = \<lparr>QGVector2_x = 0, QGVector2_y = 0\<rparr>"

definition world0 :: "nat world" where
  "world0 =
     \<lparr>mem = (\<lambda>a. of_nat a),
      meshes = (\<lambda>a. \<lparr>QGVMesh_type = 0, QGVMesh_data = 100, QGVMesh_indices = 200\<rparr>),
      sprites = (\<lambda>a. \<lparr>QGSprite_transform =
                         \<lparr>QGTransform2D_position = vec0, QGTransform2D_rotation = 0,
                          QGTransform2D_scale = vec0\<rparr>,
                       QGSprite_layer = 0\<rparr>),
      priv = 0\<rparr>"

definition state0 :: "(string, nat) state" where
  "state0 = \<lparr>trace = [], world = world0\<rparr>"

definition header0 :: header where
  "header0 = \<lparr>QG_VERTEX_TYPE_TEXTURED = 0, sizeof_QGTexturedVertex = 24,
              sizeof_QGColoredVertex = 16\<rparr>"

text \<open>The sample engine with an initialisation that reports failure.\<close>

definition failing_engine :: "(string, nat) engine" where
  "failing_engine =
     sample_engine\<lparr>QuickGame_Init := (\<lambda>w. (- 1, w)), QuickGame_Graphics_Init := (\<lambda>w. (- 1, w))\<rparr>"

definition sprite0 :: Sprite where
  "sprite0 =
     \<lparr>Sprite_transform =
        \<lparr>QGTransform2D_position = \<lparr>QGVector2_x = 1, QGVector2_y = 2\<rparr>,
         QGTransform2D_rotation = 3,
         QGTransform2D_scale = \<lparr>QGVector2_x = 4, QGVector2_y = 5\<rparr>\<rparr>,
      Sprite_layer = 6, Sprite_color = \<lparr>QGColor_color = 7\<rparr>, Sprite_ir = 8\<rparr>"

section \<open>Vocabulary of the properties\<close>



section \<open>Basic facts\<close>

lemma engine_call_eq:
  "engine_call c f s = (fst (f (world s)), \<lparr>trace = trace s @ [c], world = snd (f (world s))\<rparr>)"
  by (simp add: engine_call_def split: prod.split)


lemma copy_bytes_at:
  "copy_bytes m dst src n (dst + j) = (if j < n then m (src + j) else m (dst + j))"
  by (simp add: copy_bytes_def)

lemma memcpy_zero: "memcpy m dst src 0 = Inr m"
  by (auto simp add: memcpy_def overlap_def copy_bytes_def fun_eq_iff)

lemma memcpy_same: "memcpy m p p (Suc n) = Inl overlapping_memcpy"
  by (simp add: memcpy_def overlap_def)

text \<open>
  \<^verbatim>\<open>create_mesh\<close> on a mesh that has a handle: the \<^verbatim>\<open>else\<close> keeps it from creating
  anything. It destroys the mesh and then tests the handle the engine left.
\<close>

lemma create_mesh_with_handle:
  "Mesh_create_mesh eng type vcount icount (m\<lparr>Mesh_ir := Suc h\<rparr>) s =
     (if fst (QuickGame_Graphics_Destroy_Mesh eng (Suc h) (world s)) = NULL
      then Inl (runtime_error ''Mesh creation failed!'') else Inr (),
      m\<lparr>Mesh_ir := fst (QuickGame_Graphics_Destroy_Mesh eng (Suc h) (world s))\<rparr>,
      \<lparr>trace = trace s @ [Call_Graphics_Destroy_Mesh (Suc h)],
       world = snd (QuickGame_Graphics_Destroy_Mesh eng (Suc h) (world s))\<rparr>)"
  by (simp add: Mesh_create_mesh_def Mesh_delete_data_def engine_call_eq)

section \<open>Properties\<close>

subsection \<open>Which wrappers turn an engine failure into an exception\<close>

text \<open>
  C1, as the code has it. The wrappers that check the engine's result throw a runtime
  error exactly when the engine reports failure: \<^verbatim>\<open>QuickGame::init()\<close> when
  \<^verbatim>\<open>QuickGame_Init()\<close> is negative; the constructor \<^verbatim>\<open>Mesh(type, vcount, icount)\<close>, and
  \<^verbatim>\<open>create_mesh\<close> on a mesh without a handle, when \<^verbatim>\<open>QuickGame_Graphics_Create_Mesh\<close>
  returns null; the two \<^verbatim>\<open>Texture\<close> constructors and the two \<^verbatim>\<open>Sprite\<close> constructors
  when the engine's load or create call returns null. \<^verbatim>\<open>Graphics::init()\<close> discards
  what the engine returns and never throws, and \<^verbatim>\<open>allocate\<close> and \<^verbatim>\<open>allocate_aligned\<close>
  return the engine's pointer, null included.
\<close>

theorem checked_wrappers_throw_on_failure:
  "(throws (fst (init eng s)) \<longleftrightarrow> sint (fst (QuickGame_Init eng (world s))) < 0) \<and>
   (throws (fst (Mesh_ctor eng type vcount icount m s)) \<longleftrightarrow>
      fst (QuickGame_Graphics_Create_Mesh eng type vcount icount (world s)) = NULL) \<and>
   (Mesh_ir m = NULL \<longrightarrow>
      (throws (fst (Mesh_create_mesh eng type vcount icount m s)) \<longleftrightarrow>
         fst (QuickGame_Graphics_Create_Mesh eng type vcount icount (world s)) = NULL)) \<and>
   (throws (fst (Texture_ctor eng filename flip vram t s)) \<longleftrightarrow>
      fst (QuickGame_Texture_Load eng filename flip vram (world s)) = NULL) \<and>
   (throws (fst (Texture_ctor_info eng tex_info t s)) \<longleftrightarrow>
      fst (QuickGame_Texture_Load_Alt eng tex_info (world s)) = NULL) \<and>
   (throws (fst (Sprite_ctor eng position size' t sp s)) \<longleftrightarrow>
      fst (QuickGame_Sprite_Create eng position size' (Texture_ir t) (world s)) = NULL) \<and>
   (throws (fst (Sprite_ctor_info eng position size' tex_info sp s)) \<longleftrightarrow>
      fst (QuickGame_Sprite_Create_Contained eng (QGVector2_x position) (QGVector2_y position)
             (QGVector2_x size') (QGVector2_y size') tex_info (world s)) = NULL) \<and>
   fst (Graphics_init eng s) = Inr () \<and>
   fst (allocate eng n s) = Inr (fst (QuickGame_Allocate eng n (world s))) \<and>
   fst (allocate_aligned eng a n s) = Inr (fst (QuickGame_Allocate_Aligned eng a n (world s)))"
  by (simp add: init_def Mesh_ctor_def Mesh_create_mesh_def Texture_ctor_def Texture_ctor_info_def
      Sprite_ctor_def Sprite_ctor_info_def Graphics_init_def allocate_def allocate_aligned_def
      engine_call_eq Let_def)

theorem checked_wrappers_throw_on_failure_witness:
  "Mesh_ir \<lparr>Mesh_ir = NULL\<rparr> = NULL \<and>
   fst (QuickGame_Graphics_Create_Mesh sample_engine 0 0 6 (world state0)) = NULL \<and>
   throws (fst (Mesh_create_mesh sample_engine 0 0 6 \<lparr>Mesh_ir = NULL\<rparr> state0)) \<and>
   throws (fst (Mesh_ctor sample_engine 0 0 6 \<lparr>Mesh_ir = NULL\<rparr> state0)) \<and>
   throws (fst (Texture_ctor sample_engine [] False True \<lparr>Texture_ir = 9\<rparr> state0)) \<and>
   throws (fst (Sprite_ctor sample_engine vec0 vec0 \<lparr>Texture_ir = NULL\<rparr> sprite0 state0)) \<and>
   fst (Graphics_init sample_engine state0) = Inr () \<and>
   fst (allocate sample_engine 0 state0) = Inr NULL"
  using checked_wrappers_throw_on_failure
    [where eng = sample_engine and s = state0 and type = 0 and vcount = 0 and icount = 6
       and m = "\<lparr>Mesh_ir = NULL\<rparr>" and filename = "[]" and flip = False and vram = True
       and t = "\<lparr>Texture_ir = NULL\<rparr>" and tex_info = "[]" and position = vec0 and size' = vec0
       and sp = sprite0 and n = 0 and a = 0]
    checked_wrappers_throw_on_failure
    [where eng = sample_engine and s = state0 and type = 0 and vcount = 0 and icount = 6
       and m = "\<lparr>Mesh_ir = NULL\<rparr>" and filename = "[]" and flip = False and vram = True
       and t = "\<lparr>Texture_ir = 9\<rparr>" and tex_info = "[]" and position = vec0 and size' = vec0
       and sp = sprite0 and n = 0 and a = 0]
  by (simp add: sample_engine_def state0_def)

text \<open>
  C1, as the claim states it, fails: when \<^verbatim>\<open>QuickGame_Allocate(0)\<close> returns null,
  \<^verbatim>\<open>allocate(0)\<close> returns that null pointer to the caller, and when
  \<^verbatim>\<open>QuickGame_Graphics_Init()\<close> reports failure, \<^verbatim>\<open>Graphics::init()\<close> returns normally.
\<close>

theorem unchecked_wrappers_do_not_throw:
  "fst (QuickGame_Allocate sample_engine 0 (world state0)) = NULL \<and>
   allocate sample_engine 0 state0 = (Inr NULL, \<lparr>trace = [Call_Allocate 0], world = world0\<rparr>) \<and>
   sint (fst (QuickGame_Graphics_Init failing_engine (world state0))) < 0 \<and>
   Graphics_init failing_engine state0 = (Inr (), \<lparr>trace = [Call_Graphics_Init], world = world0\<rparr>)"
  by (simp add: allocate_def Graphics_init_def engine_call_eq sample_engine_def failing_engine_def
      state0_def)

subsection \<open>The handle of a wrapper object\<close>

text \<open>
  C2, as the code has it. After a constructor that calls the engine
  (\<^verbatim>\<open>Mesh(type, vcount, icount)\<close>, both \<^verbatim>\<open>Texture\<close> constructors, both \<^verbatim>\<open>Sprite\<close>
  constructors) or \<^verbatim>\<open>create_mesh\<close> returns normally, the stored handle is not null. The
  default constructor \<^verbatim>\<open>Mesh()\<close> returns normally with a null handle. A destructor and
  \<^verbatim>\<open>delete_data\<close> leave in the handle what the engine's destroy call leaves there: null
  whenever that call nulls the handle it is given. Every other method leaves the handle
  as it was.
\<close>

theorem handle_lifecycle:
  "(fst (Mesh_ctor eng type vcount icount m s) = Inr () \<longrightarrow>
      Mesh_ir (fst (snd (Mesh_ctor eng type vcount icount m s))) \<noteq> NULL) \<and>
   (fst (Mesh_create_mesh eng type vcount icount m s) = Inr () \<longrightarrow>
      Mesh_ir (fst (snd (Mesh_create_mesh eng type vcount icount m s))) \<noteq> NULL) \<and>
   (fst (Texture_ctor eng filename flip vram t s) = Inr () \<longrightarrow>
      Texture_ir (fst (snd (Texture_ctor eng filename flip vram t s))) \<noteq> NULL) \<and>
   (fst (Texture_ctor_info eng tex_info t s) = Inr () \<longrightarrow>
      Texture_ir (fst (snd (Texture_ctor_info eng tex_info t s))) \<noteq> NULL) \<and>
   (fst (Sprite_ctor eng position size' texture sp s) = Inr () \<longrightarrow>
      Sprite_ir (fst (snd (Sprite_ctor eng position size' texture sp s))) \<noteq> NULL) \<and>
   (fst (Sprite_ctor_info eng position size' tex_info sp s) = Inr () \<longrightarrow>
      Sprite_ir (fst (snd (Sprite_ctor_info eng position size' tex_info sp s))) \<noteq> NULL) \<and>
   fst (Mesh_default m s) = Inr () \<and>
   Mesh_ir (fst (snd (Mesh_default m s))) = NULL \<and>
   (fst (QuickGame_Graphics_Destroy_Mesh eng (Mesh_ir m) (world s)) = NULL \<longrightarrow>
      Mesh_ir (fst (snd (Mesh_dtor eng m s))) = NULL \<and>
      Mesh_ir (fst (snd (Mesh_delete_data eng m s))) = NULL) \<and>
   (fst (QuickGame_Texture_Destroy eng (Texture_ir t) (world s)) = NULL \<longrightarrow>
      Texture_ir (fst (snd (Texture_dtor eng t s))) = NULL) \<and>
   (fst (QuickGame_Sprite_Destroy eng (Sprite_ir sp) (world s)) = NULL \<longrightarrow>
      Sprite_ir (fst (snd (Sprite_dtor eng sp s))) = NULL) \<and>
   Mesh_ir (fst (snd (Mesh_add_data hdr verts vc indices ic m s))) = Mesh_ir m \<and>
   Mesh_ir (fst (snd (Mesh_draw eng m s))) = Mesh_ir m \<and>
   Texture_ir (fst (snd (Texture_bind eng t s))) = Texture_ir t \<and>
   Texture_ir (fst (snd (Texture_unbind eng t s))) = Texture_ir t \<and>
   Sprite_ir (fst (snd (Sprite_draw eng sp s))) = Sprite_ir sp \<and>
   Sprite_ir (fst (snd (Sprite_intersects eng other sp s))) = Sprite_ir sp \<and>
   Sprite_ir (fst (snd (Sprite_intersection eng other sp s))) = Sprite_ir sp"
  by (simp add: Mesh_ctor_def Mesh_create_mesh_def Mesh_delete_data_def Mesh_dtor_def
      Mesh_default_def Mesh_add_data_def Mesh_draw_def
      Texture_ctor_def Texture_ctor_info_def Texture_bind_def Texture_unbind_def Texture_dtor_def
      Sprite_ctor_def Sprite_ctor_info_def Sprite_dtor_def Sprite_draw_def Sprite_intersects_def
      Sprite_intersection_def engine_call_eq Let_def memcpy_def split: sum.split)

theorem handle_lifecycle_witness:
  "fst (Mesh_ctor sample_engine 0 4 6 \<lparr>Mesh_ir = 7\<rparr> state0) = Inr () \<and>
   Mesh_ir (fst (snd (Mesh_ctor sample_engine 0 4 6 \<lparr>Mesh_ir = 7\<rparr> state0))) \<noteq> NULL \<and>
   fst (Mesh_create_mesh sample_engine 0 4 6 \<lparr>Mesh_ir = NULL\<rparr> state0) = Inr () \<and>
   Mesh_ir (fst (snd (Mesh_create_mesh sample_engine 0 4 6 \<lparr>Mesh_ir = NULL\<rparr> state0))) \<noteq> NULL \<and>
   fst (Texture_ctor sample_engine ''hero.png'' False True \<lparr>Texture_ir = 9\<rparr> state0) = Inr () \<and>
   Texture_ir (fst (snd (Texture_ctor sample_engine ''hero.png'' False True \<lparr>Texture_ir = 9\<rparr> state0)))
     \<noteq> NULL \<and>
   fst (Texture_ctor_info sample_engine ''hero.png'' \<lparr>Texture_ir = 9\<rparr> state0) = Inr () \<and>
   Texture_ir (fst (snd (Texture_ctor_info sample_engine ''hero.png'' \<lparr>Texture_ir = 9\<rparr> state0)))
     \<noteq> NULL \<and>
   fst (Sprite_ctor sample_engine vec0 vec0 \<lparr>Texture_ir = 9\<rparr> sprite0 state0) = Inr () \<and>
   Sprite_ir (fst (snd (Sprite_ctor sample_engine vec0 vec0 \<lparr>Texture_ir = 9\<rparr> sprite0 state0)))
     \<noteq> NULL \<and>
   fst (Sprite_ctor_info sample_engine vec0 vec0 ''hero.png'' sprite0 state0) = Inr () \<and>
   Sprite_ir (fst (snd (Sprite_ctor_info sample_engine vec0 vec0 ''hero.png'' sprite0 state0)))
     \<noteq> NULL \<and>
   fst (QuickGame_Graphics_Destroy_Mesh sample_engine (Mesh_ir \<lparr>Mesh_ir = 7\<rparr>) (world state0))
     = NULL \<and>
   Mesh_ir (fst (snd (Mesh_dtor sample_engine \<lparr>Mesh_ir = 7\<rparr> state0))) = NULL \<and>
   Mesh_ir (fst (snd (Mesh_delete_data sample_engine \<lparr>Mesh_ir = 7\<rparr> state0))) = NULL \<and>
   fst (QuickGame_Texture_Destroy sample_engine (Texture_ir \<lparr>Texture_ir = 9\<rparr>) (world state0))
     = NULL \<and>
   Texture_ir (fst (snd (Texture_dtor sample_engine \<lparr>Texture_ir = 9\<rparr> state0))) = NULL \<and>
   fst (QuickGame_Sprite_Destroy sample_engine (Sprite_ir sprite0) (world state0)) = NULL \<and>
   Sprite_ir (fst (snd (Sprite_dtor sample_engine sprite0 state0))) = NULL"
  using handle_lifecycle
    [where eng = sample_engine and s = state0 and type = 0 and vcount = 4 and icount = 6
       and m = "\<lparr>Mesh_ir = 7\<rparr>" and filename = "''hero.png''" and flip = False and vram = True
       and t = "\<lparr>Texture_ir = 9\<rparr>" and tex_info = "''hero.png''" and position = vec0
       and size' = vec0 and texture = "\<lparr>Texture_ir = 9\<rparr>" and sp = sprite0]
    handle_lifecycle
    [where eng = sample_engine and s = state0 and type = 0 and vcount = 4 and icount = 6
       and m = "\<lparr>Mesh_ir = NULL\<rparr>"]
  by (simp add: sample_engine_def state0_def world0_def fresh_def
      Mesh_ctor_def Mesh_create_mesh_def Texture_ctor_def Texture_ctor_info_def Sprite_ctor_def
      Sprite_ctor_info_def engine_call_eq Let_def)

text \<open>
  C2, as the claim states it, fails at the default constructor: \<^verbatim>\<open>Mesh()\<close> returns
  normally and the handle it stores is null.
\<close>

theorem Mesh_default_null_handle:
  "Mesh_default \<lparr>Mesh_ir = 7\<rparr> state0 = (Inr (), \<lparr>Mesh_ir = NULL\<rparr>, state0)"
  by (simp add: Mesh_default_def)

subsection \<open>Initialisation\<close>

text \<open>
  C3. \<^verbatim>\<open>QuickGame::init()\<close> throws a runtime error if and only if \<^verbatim>\<open>QuickGame_Init()\<close>
  returns a negative value. It makes that one engine call and nothing else: the state
  it leaves is the one the engine call left, and when the value is not negative it
  returns normally.
\<close>

theorem init_throws_iff_negative:
  "(throws (fst (init eng s)) \<longleftrightarrow> sint (fst (QuickGame_Init eng (world s))) < 0) \<and>
   (\<not> sint (fst (QuickGame_Init eng (world s))) < 0 \<longrightarrow> fst (init eng s) = Inr ()) \<and>
   snd (init eng s) =
     \<lparr>trace = trace s @ [Call_Init], world = snd (QuickGame_Init eng (world s))\<rparr>"
proof (cases "sint (fst (QuickGame_Init eng (world s))) < 0")
  case True
  then have "init eng s =
      (Inl (runtime_error ''Failed to initialize!''),
       \<lparr>trace = trace s @ [Call_Init], world = snd (QuickGame_Init eng (world s))\<rparr>)"
    by (simp add: init_def engine_call_eq)
  with True show ?thesis by simp
next
  case False
  then have "init eng s =
      (Inr (), \<lparr>trace = trace s @ [Call_Init], world = snd (QuickGame_Init eng (world s))\<rparr>)"
    by (simp add: init_def engine_call_eq)
  with False show ?thesis by simp
qed

theorem init_throws_iff_negative_witness:
  "\<not> sint (fst (QuickGame_Init sample_engine (world state0))) < 0 \<and>
   fst (init sample_engine state0) = Inr () \<and>
   snd (init sample_engine state0) = \<lparr>trace = [Call_Init], world = world0\<rparr> \<and>
   sint (fst (QuickGame_Init failing_engine (world state0))) < 0 \<and>
   throws (fst (init failing_engine state0))"
  using init_throws_iff_negative [of sample_engine state0]
    init_throws_iff_negative [of failing_engine state0]
  by (simp add: sample_engine_def failing_engine_def state0_def)

subsection \<open>Engine calls made by each operation\<close>




subsection \<open>Texture constructors\<close>

text \<open>
  C5. For every file name, flip and vram flag, and for every \<^verbatim>\<open>QGTexInfo\<close>, the
  \<^verbatim>\<open>Texture\<close> constructor makes the one load call with its arguments unchanged
  (\<^verbatim>\<open>QuickGame_Texture_Load\<close>, respectively \<^verbatim>\<open>QuickGame_Texture_Load_Alt\<close>), throws a
  runtime error if and only if that call returns a null handle, and otherwise completes
  with the returned handle stored.
\<close>

theorem Texture_ctor_throws_iff_null:
  "(throws (fst (Texture_ctor eng filename flip vram this s)) \<longleftrightarrow>
      fst (QuickGame_Texture_Load eng filename flip vram (world s)) = NULL) \<and>
   (fst (QuickGame_Texture_Load eng filename flip vram (world s)) \<noteq> NULL \<longrightarrow>
      fst (Texture_ctor eng filename flip vram this s) = Inr () \<and>
      Texture_ir (fst (snd (Texture_ctor eng filename flip vram this s))) =
        fst (QuickGame_Texture_Load eng filename flip vram (world s))) \<and>
   snd (snd (Texture_ctor eng filename flip vram this s)) =
     \<lparr>trace = trace s @ [Call_Texture_Load filename flip vram],
      world = snd (QuickGame_Texture_Load eng filename flip vram (world s))\<rparr> \<and>
   (throws (fst (Texture_ctor_info eng tex_info this s)) \<longleftrightarrow>
      fst (QuickGame_Texture_Load_Alt eng tex_info (world s)) = NULL) \<and>
   (fst (QuickGame_Texture_Load_Alt eng tex_info (world s)) \<noteq> NULL \<longrightarrow>
      fst (Texture_ctor_info eng tex_info this s) = Inr () \<and>
      Texture_ir (fst (snd (Texture_ctor_info eng tex_info this s))) =
        fst (QuickGame_Texture_Load_Alt eng tex_info (world s))) \<and>
   snd (snd (Texture_ctor_info eng tex_info this s)) =
     \<lparr>trace = trace s @ [Call_Texture_Load_Alt tex_info],
      world = snd (QuickGame_Texture_Load_Alt eng tex_info (world s))\<rparr>"
proof -
  let ?h = "fst (QuickGame_Texture_Load eng filename flip vram (world s))"
  let ?k = "fst (QuickGame_Texture_Load_Alt eng tex_info (world s))"
  have from_file:
    "Texture_ctor eng filename flip vram this s =
       (if ?h = NULL then Inl (runtime_error ''Could not load texture!'') else Inr (),
        this\<lparr>Texture_ir := ?h\<rparr>,
        \<lparr>trace = trace s @ [Call_Texture_Load filename flip vram],
         world = snd (QuickGame_Texture_Load eng filename flip vram (world s))\<rparr>)"
    by (simp add: Texture_ctor_def engine_call_eq Let_def)
  have from_info:
    "Texture_ctor_info eng tex_info this s =
       (if ?k = NULL then Inl (runtime_error ''Could not load texture!'') else Inr (),
        this\<lparr>Texture_ir := ?k\<rparr>,
        \<lparr>trace = trace s @ [Call_Texture_Load_Alt tex_info],
         world = snd (QuickGame_Texture_Load_Alt eng tex_info (world s))\<rparr>)"
    by (simp add: Texture_ctor_info_def engine_call_eq Let_def)
  show ?thesis
    unfolding from_file from_info by simp
qed

theorem Texture_ctor_throws_iff_null_witness:
  "fst (QuickGame_Texture_Load sample_engine ''hero.png'' False True (world state0)) \<noteq> NULL \<and>
   fst (Texture_ctor sample_engine ''hero.png'' False True \<lparr>Texture_ir = 9\<rparr> state0) = Inr () \<and>
   Texture_ir (fst (snd (Texture_ctor sample_engine ''hero.png'' False True \<lparr>Texture_ir = 9\<rparr> state0)))
     = 1 \<and>
   fst (QuickGame_Texture_Load_Alt sample_engine ''hero.png'' (world state0)) \<noteq> NULL \<and>
   fst (Texture_ctor_info sample_engine ''hero.png'' \<lparr>Texture_ir = 9\<rparr> state0) = Inr () \<and>
   Texture_ir (fst (snd (Texture_ctor_info sample_engine ''hero.png'' \<lparr>Texture_ir = 9\<rparr> state0)))
     = 1 \<and>
   fst (QuickGame_Texture_Load sample_engine [] False True (world state0)) = NULL \<and>
   throws (fst (Texture_ctor sample_engine [] False True \<lparr>Texture_ir = 9\<rparr> state0)) \<and>
   throws (fst (Texture_ctor_info sample_engine [] \<lparr>Texture_ir = 9\<rparr> state0))"
  using Texture_ctor_throws_iff_null
          [of sample_engine "''hero.png''" False True "\<lparr>Texture_ir = 9\<rparr>" state0 "''hero.png''"]
        Texture_ctor_throws_iff_null
          [of sample_engine "[]" False True "\<lparr>Texture_ir = 9\<rparr>" state0 "[]"]
  by (simp add: sample_engine_def state0_def world0_def fresh_def)

subsection \<open>Input\<close>

text \<open>
  C6. For every button mask, \<^verbatim>\<open>button_pressed\<close>, \<^verbatim>\<open>button_held\<close> and
  \<^verbatim>\<open>button_released\<close> pass the mask unchanged to \<^verbatim>\<open>QuickGame_Button_Pressed\<close>,
  \<^verbatim>\<open>QuickGame_Button_Held\<close> and \<^verbatim>\<open>QuickGame_Button_Released\<close>, return the value that
  call returns, and do not throw.
\<close>

theorem buttons_forwarded:
  "button_pressed eng buttons s =
     (Inr (fst (QuickGame_Button_Pressed eng buttons (world s))),
      \<lparr>trace = trace s @ [Call_Button_Pressed buttons],
       world = snd (QuickGame_Button_Pressed eng buttons (world s))\<rparr>) \<and>
   button_held eng buttons s =
     (Inr (fst (QuickGame_Button_Held eng buttons (world s))),
      \<lparr>trace = trace s @ [Call_Button_Held buttons],
       world = snd (QuickGame_Button_Held eng buttons (world s))\<rparr>) \<and>
   button_released eng buttons s =
     (Inr (fst (QuickGame_Button_Released eng buttons (world s))),
      \<lparr>trace = trace s @ [Call_Button_Released buttons],
       world = snd (QuickGame_Button_Released eng buttons (world s))\<rparr>)"
  by (simp add: button_pressed_def button_held_def button_released_def engine_call_eq)

subsection \<open>Destructors\<close>

text \<open>
  C7. Destroying a \<^verbatim>\<open>Mesh\<close>, a \<^verbatim>\<open>Texture\<close> or a \<^verbatim>\<open>Sprite\<close> calls the engine's destroy
  function of that kind exactly once, on the object's one handle field, and makes no
  other engine call: the engine is handed the stored handle, and the field holds
  afterwards what the engine left in it.
\<close>

theorem destructors_destroy_once:
  "Mesh_dtor eng m s =
     (Inr (), m\<lparr>Mesh_ir := fst (QuickGame_Graphics_Destroy_Mesh eng (Mesh_ir m) (world s))\<rparr>,
      \<lparr>trace = trace s @ [Call_Graphics_Destroy_Mesh (Mesh_ir m)],
       world = snd (QuickGame_Graphics_Destroy_Mesh eng (Mesh_ir m) (world s))\<rparr>) \<and>
   Texture_dtor eng t s =
     (Inr (), t\<lparr>Texture_ir := fst (QuickGame_Texture_Destroy eng (Texture_ir t) (world s))\<rparr>,
      \<lparr>trace = trace s @ [Call_Texture_Destroy (Texture_ir t)],
       world = snd (QuickGame_Texture_Destroy eng (Texture_ir t) (world s))\<rparr>) \<and>
   Sprite_dtor eng sp s =
     (Inr (), sp\<lparr>Sprite_ir := fst (QuickGame_Sprite_Destroy eng (Sprite_ir sp) (world s))\<rparr>,
      \<lparr>trace = trace s @ [Call_Sprite_Destroy (Sprite_ir sp)],
       world = snd (QuickGame_Sprite_Destroy eng (Sprite_ir sp) (world s))\<rparr>)"
  by (simp add: Mesh_dtor_def Mesh_delete_data_def Texture_dtor_def Sprite_dtor_def engine_call_eq)

subsection \<open>Drawing a sprite\<close>

text \<open>
  C8. \<^verbatim>\<open>Sprite::draw()\<close> with a null handle does nothing: no engine call, no access
  through the handle, state and object unchanged. With a non-null handle it writes the
  members \<^verbatim>\<open>transform\<close> and \<^verbatim>\<open>layer\<close> into the fields of the same names of the sprite
  struct behind the handle, touches no other sprite struct, and then calls
  \<^verbatim>\<open>QuickGame_Sprite_Draw\<close> once on the handle. The member \<^verbatim>\<open>color\<close> reaches neither the
  struct nor the engine: the state after \<^verbatim>\<open>draw\<close> does not depend on it.
\<close>

theorem Sprite_draw_forwards_transform_and_layer:
  "(Sprite_ir this = NULL \<longrightarrow> Sprite_draw eng this s = (Inr (), this, s)) \<and>
   (Sprite_ir this \<noteq> NULL \<longrightarrow>
      Sprite_draw eng this s =
        (Inr (), this,
         \<lparr>trace = trace s @ [Call_Sprite_Draw (Sprite_ir this)],
          world = snd (QuickGame_Sprite_Draw eng (Sprite_ir this)
            ((world s)\<lparr>sprites := (sprites (world s))
               (Sprite_ir this := (sprites (world s) (Sprite_ir this))
                  \<lparr>QGSprite_transform := Sprite_transform this,
                   QGSprite_layer := Sprite_layer this\<rparr>)\<rparr>))\<rparr>)) \<and>
   snd (snd (Sprite_draw eng (this\<lparr>Sprite_color := c\<rparr>) s)) = snd (snd (Sprite_draw eng this s))"
proof (cases "Sprite_ir this = NULL")
  case True
  then have "Sprite_draw eng this' s = (Inr (), this', s)" if "Sprite_ir this' = Sprite_ir this"
    for this'
    using that by (simp add: Sprite_draw_def)
  from this [of this] this [of "this\<lparr>Sprite_color := c\<rparr>"] True show ?thesis
    by simp
next
  case False
  then show ?thesis
    by (simp add: Sprite_draw_def engine_call_eq Let_def)
qed

theorem Sprite_draw_forwards_transform_and_layer_witness:
  "Sprite_ir (sprite0\<lparr>Sprite_ir := NULL\<rparr>) = NULL \<and>
   Sprite_draw sample_engine (sprite0\<lparr>Sprite_ir := NULL\<rparr>) state0 =
     (Inr (), sprite0\<lparr>Sprite_ir := NULL\<rparr>, state0) \<and>
   Sprite_ir sprite0 \<noteq> NULL \<and>
   fst (Sprite_draw sample_engine sprite0 state0) = Inr () \<and>
   trace (snd (snd (Sprite_draw sample_engine sprite0 state0))) = [Call_Sprite_Draw 8] \<and>
   sprites (world (snd (snd (Sprite_draw sample_engine sprite0 state0)))) 8 =
     \<lparr>QGSprite_transform = Sprite_transform sprite0, QGSprite_layer = 6\<rparr> \<and>
   sprites (world (snd (snd (Sprite_draw sample_engine sprite0 state0)))) 9 = sprites world0 9"
  using Sprite_draw_forwards_transform_and_layer
          [of "sprite0\<lparr>Sprite_ir := NULL\<rparr>" sample_engine state0]
        Sprite_draw_forwards_transform_and_layer [of sprite0 sample_engine state0]
  by (simp add: sample_engine_def state0_def world0_def sprite0_def)

subsection \<open>Filling a mesh\<close>

text \<open>
  C9, as the code has it. \<^verbatim>\<open>Mesh::add_data\<close> throws a runtime error if and only if
  \<^verbatim>\<open>verts\<close> or \<^verbatim>\<open>indices\<close> is null, and then changes nothing. When both are non-null,
  the mesh's handle is non-null, and in neither of the two copies the source overlaps
  the destination, it copies \<^verbatim>\<open>vcount\<close> elements, that is \<^verbatim>\<open>vcount * size\<close> bytes with
  the product taken in \<^verbatim>\<open>size_t\<close> and \<^verbatim>\<open>size\<close> the size of a textured vertex if the
  mesh's type is \<^verbatim>\<open>QG_VERTEX_TYPE_TEXTURED\<close> and of a coloured one otherwise, from
  \<^verbatim>\<open>verts\<close> into the mesh's data buffer, then \<^verbatim>\<open>icount\<close> 16-bit indices (\<^verbatim>\<open>icount * 2\<close>
  bytes) from \<^verbatim>\<open>indices\<close> into its index buffer; it makes no engine call and leaves the
  handle unchanged. When both are non-null and the handle is null, it reads through the
  null handle.
\<close>

theorem Mesh_add_data_copies:
  "(throws (fst (Mesh_add_data hdr verts vcount indices icount this s)) \<longleftrightarrow>
      verts = NULL \<or> indices = NULL) \<and>
   (verts = NULL \<or> indices = NULL \<longrightarrow>
      Mesh_add_data hdr verts vcount indices icount this s =
        (Inl (runtime_error ''Mesh data null!''), this, s)) \<and>
   (verts \<noteq> NULL \<and> indices \<noteq> NULL \<and> Mesh_ir this \<noteq> NULL \<and>
    \<not> overlap (QGVMesh_data (meshes (world s) (Mesh_ir this))) verts
        (unat (vcount *
           (if QGVMesh_type (meshes (world s) (Mesh_ir this)) = QG_VERTEX_TYPE_TEXTURED hdr
            then sizeof_QGTexturedVertex hdr else sizeof_QGColoredVertex hdr))) \<and>
    \<not> overlap (QGVMesh_indices (meshes (world s) (Mesh_ir this))) indices (unat (icount * 2)) \<longrightarrow>
      Mesh_add_data hdr verts vcount indices icount this s =
        (Inr (), this,
         s\<lparr>world := (world s)\<lparr>mem :=
              copy_bytes
                (copy_bytes (mem (world s)) (QGVMesh_data (meshes (world s) (Mesh_ir this))) verts
                   (unat (vcount *
                      (if QGVMesh_type (meshes (world s) (Mesh_ir this)) = QG_VERTEX_TYPE_TEXTURED hdr
                       then sizeof_QGTexturedVertex hdr else sizeof_QGColoredVertex hdr))))
                (QGVMesh_indices (meshes (world s) (Mesh_ir this))) indices
                (unat (icount * 2))\<rparr>\<rparr>)) \<and>
   (verts \<noteq> NULL \<and> indices \<noteq> NULL \<and> Mesh_ir this = NULL \<longrightarrow>
      Mesh_add_data hdr verts vcount indices icount this s = (Inl null_dereference, this, s))"
proof (cases "verts = NULL \<or> indices = NULL")
  case True
  then have "Mesh_add_data hdr verts vcount indices icount this s =
      (Inl (runtime_error ''Mesh data null!''), this, s)"
    by (auto simp add: Mesh_add_data_def)
  with True show ?thesis by auto
next
  case args: False
  show ?thesis
  proof (cases "Mesh_ir this = NULL")
    case True
    with args have "Mesh_add_data hdr verts vcount indices icount this s =
        (Inl null_dereference, this, s)"
      by (simp add: Mesh_add_data_def)
    with args True show ?thesis by simp
  next
    case False
    with args show ?thesis
      by (simp add: Mesh_add_data_def Let_def sizeof_u16_def memcpy_def split: sum.split)
  qed
qed

theorem Mesh_add_data_copies_witness:
  "\<not> overlap (QGVMesh_data (meshes (world state0) (Mesh_ir \<lparr>Mesh_ir = 1\<rparr>))) 16 (unat (2 * 24 :: usize)) \<and>
   \<not> overlap (QGVMesh_indices (meshes (world state0) (Mesh_ir \<lparr>Mesh_ir = 1\<rparr>))) 32 (unat (3 * 2 :: usize)) \<and>
   fst (Mesh_add_data header0 16 2 32 3 \<lparr>Mesh_ir = 1\<rparr> state0) = Inr () \<and>
   fst (snd (Mesh_add_data header0 16 2 32 3 \<lparr>Mesh_ir = 1\<rparr> state0)) = \<lparr>Mesh_ir = 1\<rparr> \<and>
   trace (snd (snd (Mesh_add_data header0 16 2 32 3 \<lparr>Mesh_ir = 1\<rparr> state0))) = [] \<and>
   mem (world (snd (snd (Mesh_add_data header0 16 2 32 3 \<lparr>Mesh_ir = 1\<rparr> state0)))) 100 = 16 \<and>
   mem (world (snd (snd (Mesh_add_data header0 16 2 32 3 \<lparr>Mesh_ir = 1\<rparr> state0)))) 147 = 63 \<and>
   mem (world (snd (snd (Mesh_add_data header0 16 2 32 3 \<lparr>Mesh_ir = 1\<rparr> state0)))) 148 = 148 \<and>
   mem (world (snd (snd (Mesh_add_data header0 16 2 32 3 \<lparr>Mesh_ir = 1\<rparr> state0)))) 205 = 37 \<and>
   mem (world (snd (snd (Mesh_add_data header0 16 2 32 3 \<lparr>Mesh_ir = 1\<rparr> state0)))) 206 = 206 \<and>
   throws (fst (Mesh_add_data header0 NULL 2 32 3 \<lparr>Mesh_ir = 1\<rparr> state0)) \<and>
   fst (Mesh_add_data header0 16 2 32 3 \<lparr>Mesh_ir = NULL\<rparr> state0) = Inl null_dereference"
  using Mesh_add_data_copies [of header0 16 2 32 3 "\<lparr>Mesh_ir = 1\<rparr>" state0]
    Mesh_add_data_copies [of header0 NULL 2 32 3 "\<lparr>Mesh_ir = 1\<rparr>" state0]
    Mesh_add_data_copies [of header0 16 2 32 3 "\<lparr>Mesh_ir = NULL\<rparr>" state0]
  by (simp add: header0_def state0_def world0_def overlap_def copy_bytes_def)

text \<open>
  C9, as the claim states it, fails on a default-constructed mesh: \<^verbatim>\<open>verts\<close> and
  \<^verbatim>\<open>indices\<close> are non-null, yet \<^verbatim>\<open>add_data\<close> neither throws a runtime error nor copies;
  it reads \<^verbatim>\<open>ir->type\<close> through the null handle and the state is as before.
\<close>

theorem Mesh_add_data_null_handle:
  "(16 :: ptr) \<noteq> NULL \<and> (32 :: ptr) \<noteq> NULL \<and>
   fst (Mesh_default \<lparr>Mesh_ir = 7\<rparr> state0) = Inr () \<and>
   Mesh_add_data header0 16 2 32 3 (fst (snd (Mesh_default \<lparr>Mesh_ir = 7\<rparr> state0))) state0 =
     (Inl null_dereference, \<lparr>Mesh_ir = NULL\<rparr>, state0)"
  by (simp add: Mesh_add_data_def Mesh_default_def)

subsection \<open>Sprite constructors\<close>

text \<open>
  C10. For every position and size, both \<^verbatim>\<open>Sprite\<close> constructors (the first one given
  a pointer to a texture) set the public members to \<^verbatim>\<open>transform = {position, 0, size}\<close>,
  \<^verbatim>\<open>layer = 0\<close> and \<^verbatim>\<open>color = 0xFFFFFFFF\<close>, whatever the storage held before and
  whatever the engine's create call returns afterwards: the members have these values
  in the object the constructor leaves, whether it returns normally or throws.
\<close>

theorem Sprite_ctor_initialises_members:
  "Sprite_transform (fst (snd (Sprite_ctor eng position size' texture this s))) =
     \<lparr>QGTransform2D_position = position, QGTransform2D_rotation = 0, QGTransform2D_scale = size'\<rparr> \<and>
   Sprite_layer (fst (snd (Sprite_ctor eng position size' texture this s))) = 0 \<and>
   Sprite_color (fst (snd (Sprite_ctor eng position size' texture this s))) =
     \<lparr>QGColor_color = 0xFFFFFFFF\<rparr> \<and>
   Sprite_transform (fst (snd (Sprite_ctor_info eng position size' tex_info this s))) =
     \<lparr>QGTransform2D_position = position, QGTransform2D_rotation = 0, QGTransform2D_scale = size'\<rparr> \<and>
   Sprite_layer (fst (snd (Sprite_ctor_info eng position size' tex_info this s))) = 0 \<and>
   Sprite_color (fst (snd (Sprite_ctor_info eng position size' tex_info this s))) =
     \<lparr>QGColor_color = 0xFFFFFFFF\<rparr>"
proof -
  let ?h = "fst (QuickGame_Sprite_Create eng position size' (Texture_ir texture) (world s))"
  let ?k = "fst (QuickGame_Sprite_Create_Contained eng (QGVector2_x position)
    (QGVector2_y position) (QGVector2_x size') (QGVector2_y size') tex_info (world s))"
  let ?init = "\<lambda>h. this\<lparr>Sprite_transform :=
      \<lparr>QGTransform2D_position = position, QGTransform2D_rotation = 0, QGTransform2D_scale = size'\<rparr>,
    Sprite_layer := 0, Sprite_color := \<lparr>QGColor_color = 0xFFFFFFFF\<rparr>, Sprite_ir := h\<rparr>"
  have with_texture:
    "fst (snd (Sprite_ctor eng position size' texture this s)) = ?init ?h"
    by (cases "?h = NULL") (simp_all add: Sprite_ctor_def engine_call_eq Let_def)
  have with_info:
    "fst (snd (Sprite_ctor_info eng position size' tex_info this s)) = ?init ?k"
    by (cases "?k = NULL") (simp_all add: Sprite_ctor_info_def engine_call_eq Let_def)
  show ?thesis
    unfolding with_texture with_info by simp
qed

end
